theory Spec2Isabelle
  imports Main "HOL-Library.Word"
begin

section \<open>JavaScript values\<close>

text \<open>
  The route handler and the page work on values that come out of \<^verbatim>\<open>JSON.parse\<close>,
  \<^verbatim>\<open>req.json()\<close> and \<^verbatim>\<open>res.json()\<close>, and on \<^verbatim>\<open>undefined\<close>, which a read of an
  absent property yields. Numbers are represented by integers: the program only tests
  a number for being zero and prints it. An object is the list of its own properties
  in order; a read takes the first entry of a name.
\<close>

datatype js_error = TypeError | SyntaxError | OtherError

datatype jsval =
    JUndefined
  | JNull
  | JBool bool
  | JNum int
  | JStr string
  | JArr "jsval list"
  | JObj "(string \<times> jsval) list"

text \<open>\<^verbatim>\<open>v == null\<close>: the values on which a property read throws and \<^verbatim>\<open>??\<close> defaults.\<close>

fun nullish :: "jsval \<Rightarrow> bool" where
  "nullish JUndefined = True"
| "nullish JNull = True"
| "nullish _ = False"

text \<open>\<^verbatim>\<open>!v\<close> is \<open>\<not> truthy v\<close>.\<close>

fun truthy :: "jsval \<Rightarrow> bool" where
  "truthy JUndefined = False"
| "truthy JNull = False"
| "truthy (JBool b) = b"
| "truthy (JNum n) = (n \<noteq> 0)"
| "truthy (JStr s) = (s \<noteq> [])"
| "truthy (JArr xs) = True"
| "truthy (JObj kvs) = True"

text \<open>\<^verbatim>\<open>typeof v === "string" && v !== ""\<close>\<close>

fun nonempty_string :: "jsval \<Rightarrow> bool" where
  "nonempty_string (JStr s) = (s \<noteq> [])"
| "nonempty_string _ = False"

text \<open>
  \<^verbatim>\<open>v.k\<close> on a value that is not nullish, for the property names this program reads
  (username, age, style, activity, candidates, content, parts, text, city, country,
  recommendation, error): none of them is defined on the prototypes of strings,
  numbers, booleans, arrays or objects, so only an object's own property answers.
\<close>

fun lookup_prop :: "jsval \<Rightarrow> string \<Rightarrow> jsval" where
  "lookup_prop (JObj kvs) k = (case map_of kvs k of Some v \<Rightarrow> v | None \<Rightarrow> JUndefined)"
| "lookup_prop _ k = JUndefined"

text \<open>\<^verbatim>\<open>v.k\<close>: a TypeError on \<^verbatim>\<open>null\<close> and \<^verbatim>\<open>undefined\<close>.\<close>

definition get_prop :: "jsval \<Rightarrow> string \<Rightarrow> js_error + jsval" where
  "get_prop v k = (if nullish v then Inl TypeError else Inr (lookup_prop v k))"

text \<open>\<^verbatim>\<open>v[0]\<close> on a value that is not nullish.\<close>

fun index0 :: "jsval \<Rightarrow> jsval" where
  "index0 (JArr xs) = (case xs of [] \<Rightarrow> JUndefined | x # _ \<Rightarrow> x)"
| "index0 (JStr s) = (case s of [] \<Rightarrow> JUndefined | c # _ \<Rightarrow> JStr [c])"
| "index0 (JObj kvs) = lookup_prop (JObj kvs) ''0''"
| "index0 _ = JUndefined"

text \<open>Optional chaining, \<^verbatim>\<open>v?.k\<close> and \<^verbatim>\<open>v?.[0]\<close>.\<close>

definition opt_member :: "jsval \<Rightarrow> string \<Rightarrow> jsval" where
  "opt_member v k = (if nullish v then JUndefined else lookup_prop v k)"

definition opt_index0 :: "jsval \<Rightarrow> jsval" where
  "opt_index0 v = (if nullish v then JUndefined else index0 v)"

text \<open>\<^verbatim>\<open>v ?? d\<close>.\<close>

definition nullish_default :: "jsval \<Rightarrow> jsval \<Rightarrow> jsval" where
  "nullish_default v d = (if nullish v then d else v)"

text \<open>
  Conversion to a string, as a template literal and \<^verbatim>\<open>"..." + v\<close> perform it. An
  array joins its elements with commas, printing nothing for a nullish one. A parsed
  object has no callable property of its own, so it prints through
  \<^verbatim>\<open>Object.prototype.toString\<close> unless an own property named \<^verbatim>\<open>toString\<close> hides
  that, in which case the conversion throws. A number prints as JavaScript prints an
  integer of magnitude below ten to the power 21, in decimal digits; beyond that, and
  for numbers that are not integers, the text is not modelled. No property below
  depends on the digits.
\<close>

definition digit_char :: "nat \<Rightarrow> char" where
  "digit_char n = ''0123456789'' ! n"

fun show_nat :: "nat \<Rightarrow> string" where
  "show_nat n = (if n < 10 then [digit_char n] else show_nat (n div 10) @ [digit_char (n mod 10)])"

declare show_nat.simps [simp del]

fun join_results :: "(js_error + string) list \<Rightarrow> js_error + string" where
  "join_results [] = Inr []"
| "join_results [r] = r"
| "join_results (r # rs) =
     (case r of
        Inl e \<Rightarrow> Inl e
      | Inr s \<Rightarrow> (case join_results rs of Inl e \<Rightarrow> Inl e | Inr t \<Rightarrow> Inr (s @ '','' @ t)))"

fun to_string :: "jsval \<Rightarrow> js_error + string" where
  "to_string JUndefined = Inr ''undefined''"
| "to_string JNull = Inr ''null''"
| "to_string (JBool b) = Inr (if b then ''true'' else ''false'')"
| "to_string (JNum n) = Inr (if n < 0 then ''-'' @ show_nat (nat (- n)) else show_nat (nat n))"
| "to_string (JStr s) = Inr s"
| "to_string (JArr xs) = join_results (map (\<lambda>x. if nullish x then Inr [] else to_string x) xs)"
| "to_string (JObj kvs) =
     (if ''toString'' \<in> fst ` set kvs then Inl TypeError else Inr ''[object Object]'')"

section \<open>The recommendation endpoint (src/app/api/recommend/route.ts)\<close>

text \<open>
  What a run of \<^verbatim>\<open>POST\<close> reads from outside: the environment variable, the outcome of
  \<^verbatim>\<open>await req.json()\<close>, the answer of \<^verbatim>\<open>fetch\<close> to the request sent, and the library
  function \<^verbatim>\<open>JSON.parse\<close>. Each of them either returns or throws.
\<close>

record http_response =
  res_status :: nat
  res_text :: "js_error + string"
  res_json :: "js_error + jsval"

text \<open>\<^verbatim>\<open>res.ok\<close>\<close>

definition res_ok :: "http_response \<Rightarrow> bool" where
  "res_ok res = (200 \<le> res_status res \<and> res_status res \<le> 299)"

text \<open>
  The outbound request. Method, headers, \<^verbatim>\<open>responseMimeType\<close> and \<^verbatim>\<open>citySchema\<close> are
  constants of the source; the URL and the prompt are what varies.
\<close>

record fetch_request =
  url :: string
  prompt_text :: string

record world =
  env_GEMINI_API_KEY :: "string option"
  req_json :: "js_error + jsval"
  fetch :: "fetch_request \<Rightarrow> js_error + http_response"
  JSON_parse :: "jsval \<Rightarrow> js_error + jsval"

text \<open>\<^verbatim>\<open>NextResponse.json(body, { status })\<close>\<close>

record response =
  status :: nat
  body :: jsval

datatype effect = Fetch fetch_request | ConsoleError string

fun is_Fetch :: "effect \<Rightarrow> bool" where
  "is_Fetch (Fetch rq) = True"
| "is_Fetch (ConsoleError s) = False"

definition error_response :: "string \<Rightarrow> nat \<Rightarrow> response" where
  "error_response msg st = \<lparr>status = st, body = JObj [(''error'', JStr msg)]\<rparr>"

text \<open>\<^verbatim>\<open>!geminiApiKey\<close> is \<open>\<not> key_set k\<close>: the variable is absent or the empty string.\<close>

fun key_set :: "string option \<Rightarrow> bool" where
  "key_set None = False"
| "key_set (Some k) = (k \<noteq> [])"

text \<open>Lines 31 to 39: the template literal converts the four values in order.\<close>

definition newline :: string where
  "newline = [CHR 0x0A]"

definition build_prompt :: "jsval \<Rightarrow> jsval \<Rightarrow> jsval \<Rightarrow> jsval \<Rightarrow> js_error + string" where
  "build_prompt username age style activity =
     (case to_string username of Inl e \<Rightarrow> Inl e | Inr u \<Rightarrow>
     (case to_string age of Inl e \<Rightarrow> Inl e | Inr a \<Rightarrow>
     (case to_string style of Inl e \<Rightarrow> Inl e | Inr s \<Rightarrow>
     (case to_string activity of Inl e \<Rightarrow> Inl e | Inr act \<Rightarrow>
        Inr (newline
          @ ''      Recommend exactly one travel destination city for user '' @ u @ ''. '' @ newline
          @ ''      The city should align with the following preferences:'' @ newline
          @ ''      - Age: '' @ a @ newline
          @ ''      - Travel Style: '' @ s @ newline
          @ ''      - Favourite Activity: '' @ act @ newline
          @ ''      '' @ newline
          @ ''      Respond with a JSON object containing the recommended city name, country and two sentences explaining what they can do in that city based on their favourite activity and travel style and age.'' @ newline
          @ ''    '')))))"

definition apiUrl :: "string \<Rightarrow> string" where
  "apiUrl geminiApiKey =
     ''https://generativelanguage.googleapis.com/v1beta/models/gemini-2.5-flash-preview-09-2025:generateContent?key=''
       @ geminiApiKey"

text \<open>Line 73: \<^verbatim>\<open>data.candidates?.[0]?.content?.parts?.[0]?.text\<close>\<close>

definition rawJsonText :: "jsval \<Rightarrow> js_error + jsval" where
  "rawJsonText data =
     (case get_prop data ''candidates'' of
        Inl e \<Rightarrow> Inl e
      | Inr candidates \<Rightarrow>
          Inr (opt_member (opt_index0 (opt_member (opt_member (opt_index0 candidates)
                 ''content'') ''parts'')) ''text''))"

text \<open>
  Lines 84 to 93, the body of the inner \<^verbatim>\<open>try\<close>: parse the text and read the three
  properties. Whatever throws here is answered by the inner \<^verbatim>\<open>catch\<close>.
\<close>

definition parse_fields :: "world \<Rightarrow> jsval \<Rightarrow> js_error + (jsval \<times> jsval \<times> jsval)" where
  "parse_fields w raw =
     (case JSON_parse w raw of Inl e \<Rightarrow> Inl e | Inr parsed \<Rightarrow>
     (case get_prop parsed ''city'' of Inl e \<Rightarrow> Inl e | Inr city \<Rightarrow>
     (case get_prop parsed ''country'' of Inl e \<Rightarrow> Inl e | Inr country \<Rightarrow>
     (case get_prop parsed ''recommendation'' of Inl e \<Rightarrow> Inl e | Inr recommendation \<Rightarrow>
        Inr (city, country, recommendation)))))"

text \<open>Lines 95 to 107.\<close>

definition check_fields :: "jsval \<Rightarrow> jsval \<Rightarrow> jsval \<Rightarrow> response" where
  "check_fields city country recommendation =
     (if \<not> truthy city then error_response ''AI response missing 'city' field'' 500
      else if \<not> truthy country then error_response ''AI response missing 'country' field'' 500
      else if \<not> truthy recommendation then
        error_response ''AI response missing 'recommendation' field'' 500
      else \<lparr>status = 200,
            body = JObj [(''city'', city), (''country'', country),
                         (''recommendation'', recommendation)]\<rparr>)"

text \<open>Lines 62 to 107: what the handler does with the answer of \<^verbatim>\<open>fetch\<close>.\<close>

definition handle_upstream ::
  "world \<Rightarrow> http_response \<Rightarrow> (js_error + response) \<times> effect list" where
  "handle_upstream w res =
     (if \<not> res_ok res then
        (case res_text res of
           Inl e \<Rightarrow> (Inl e, [])
         | Inr errorDetail \<Rightarrow>
             (Inr (error_response ''Gemini API request failed'' 500),
              [ConsoleError ''Gemini API error status:'']))
      else
        (case res_json res of
           Inl e \<Rightarrow> (Inl e, [])
         | Inr data \<Rightarrow>
            (case rawJsonText data of
               Inl e \<Rightarrow> (Inl e, [])
             | Inr raw \<Rightarrow>
                if \<not> truthy raw then
                  (Inr (error_response ''Could not get structured recommendation from AI'' 500),
                   [ConsoleError ''Gemini API response missing structured text content:''])
                else
                  (case parse_fields w raw of
                     Inl e \<Rightarrow>
                       (Inr (error_response ''Invalid JSON format from AI'' 500),
                        [ConsoleError ''Failed to parse JSON response from LLM:''])
                   | Inr (city, country, recommendation) \<Rightarrow>
                       (Inr (check_fields city country recommendation), [])))))"

text \<open>\<^verbatim>\<open>!username || !age || !style || !activity\<close> on the destructured body.\<close>

definition missing_fields :: "jsval \<Rightarrow> bool" where
  "missing_fields b =
     (\<not> truthy (lookup_prop b ''username'') \<or> \<not> truthy (lookup_prop b ''age'')
      \<or> \<not> truthy (lookup_prop b ''style'') \<or> \<not> truthy (lookup_prop b ''activity''))"

text \<open>Lines 16 to 107, the body of the outer \<^verbatim>\<open>try\<close>, with the effects in order.\<close>

definition POST_try :: "world \<Rightarrow> (js_error + response) \<times> effect list" where
  "POST_try w =
     (if \<not> key_set (env_GEMINI_API_KEY w) then
        (Inr (error_response ''GEMINI_API_KEY environment variable not set'' 500), [])
      else
        (case req_json w of
           Inl e \<Rightarrow> (Inl e, [])
         | Inr b \<Rightarrow>
            if nullish b then (Inl TypeError, [])
            else if missing_fields b then (Inr (error_response ''missing fields'' 400), [])
            else
              (case build_prompt (lookup_prop b ''username'') (lookup_prop b ''age'')
                      (lookup_prop b ''style'') (lookup_prop b ''activity'') of
                 Inl e \<Rightarrow> (Inl e, [])
               | Inr prompt \<Rightarrow>
                  let rq = \<lparr>url = apiUrl (the (env_GEMINI_API_KEY w)), prompt_text = prompt\<rparr> in
                  (case fetch w rq of
                     Inl e \<Rightarrow> (Inl e, [Fetch rq])
                   | Inr res \<Rightarrow>
                       (fst (handle_upstream w res), Fetch rq # snd (handle_upstream w res))))))"

text \<open>
  Lines 108 to 115, the outer \<^verbatim>\<open>catch\<close>: log, add the hint for a TypeError, answer 500.
\<close>

definition POST :: "world \<Rightarrow> response \<times> effect list" where
  "POST w =
     (case POST_try w of
        (Inr r, fx) \<Rightarrow> (r, fx)
      | (Inl err, fx) \<Rightarrow>
          (error_response ''Server processing error'' 500,
           fx @ [ConsoleError ''Server processing error'']
              @ (if err = TypeError
                 then [ConsoleError ''Possible cause: Request body parsing error (e.g., invalid JSON in POST body)'']
                 else [])))"

definition no_external_call :: "effect list \<Rightarrow> bool" where
  "no_external_call fx = (filter is_Fetch fx = [])"

section \<open>The page (src/unnamed/part_000)\<close>

subsection \<open>The form and its validation\<close>

record FormData =
  username :: string
  age :: string
  style :: string
  activity :: string

datatype field = Username | Age | Style | Activity

fun field_value :: "FormData \<Rightarrow> field \<Rightarrow> string" where
  "field_value d Username = username d"
| "field_value d Age = age d"
| "field_value d Style = style d"
| "field_value d Activity = activity d"

text \<open>
  Lines 10 to 15: every field is \<^verbatim>\<open>z.string().min(n)\<close>. The schema is the table of the
  minimum lengths, in the order of the source.
\<close>

definition FormSchema :: "(field \<times> nat) list" where
  "FormSchema = [(Username, 2), (Age, 1), (Style, 3), (Activity, 3)]"

text \<open>
  Modelled from the spec: \<^verbatim>\<open>z.string().min(n)\<close> and \<^verbatim>\<open>zodResolver\<close> are code of the
  libraries zod and @hookform/resolvers, which is not among the sources. The spec has
  each field pass a minimum-length validation and a failure display a message per
  field: a field of fewer than \<open>n\<close> characters raises an issue under the name of that
  field. The text of the message is the library's and is kept abstract.
\<close>

datatype issue = TooSmall nat

definition zodResolver :: "(field \<times> nat) list \<Rightarrow> FormData \<Rightarrow> (field \<times> issue) list" where
  "zodResolver schema d =
     map (\<lambda>(f, n). (f, TooSmall n)) (filter (\<lambda>(f, n). length (field_value d f) < n) schema)"

text \<open>Lines 22 to 27.\<close>

definition defaultValues :: FormData where
  "defaultValues = \<lparr>username = [], age = [], style = [], activity = []\<rparr>"

record form_state =
  form_values :: FormData
  errors :: "(field \<times> issue) list"

text \<open>
  Lines 97, 113, 129 and 145: \<^verbatim>\<open>errors.f && <p>{errors.f.message}</p>\<close>, the message
  shown under the input of field \<open>f\<close>.
\<close>

definition shown_message :: "form_state \<Rightarrow> field \<Rightarrow> issue option" where
  "shown_message st f = map_of (errors st) f"

subsection \<open>Submission\<close>

text \<open>
  The document handed to \<^verbatim>\<open>addDoc\<close>; \<^verbatim>\<open>createdAt\<close> is the constant sentinel
  \<^verbatim>\<open>serverTimestamp()\<close>.
\<close>

record recommendation_doc =
  doc_username :: string
  doc_age :: string
  doc_style :: string
  doc_activity :: string
  doc_city :: jsval
  doc_country :: jsval
  doc_recommendation :: jsval

text \<open>What a run of \<^verbatim>\<open>onSubmit\<close> reads from outside, and what it does.\<close>

record client_world =
  fetch_recommend :: "FormData \<Rightarrow> js_error + http_response"
  addDoc :: "recommendation_doc \<Rightarrow> js_error + unit"

datatype client_effect =
    FetchRecommend FormData
  | Alert string
  | AddDoc recommendation_doc
  | Reset

fun is_AddDoc :: "client_effect \<Rightarrow> bool" where
  "is_AddDoc (AddDoc d) = True"
| "is_AddDoc _ = False"

text \<open>Line 49: \<^verbatim>\<open>!res.ok || json.error\<close>; the right operand is read only when the left is false.\<close>

definition failed :: "http_response \<Rightarrow> jsval \<Rightarrow> js_error + bool" where
  "failed res json =
     (if \<not> res_ok res then Inr True
      else (case get_prop json ''error'' of Inl e \<Rightarrow> Inl e | Inr v \<Rightarrow> Inr (truthy v)))"

text \<open>Line 50: \<^verbatim>\<open>"Recommendation failed: " + (json.error ?? "unknown")\<close>\<close>

definition alert_text :: "jsval \<Rightarrow> js_error + string" where
  "alert_text json =
     (case get_prop json ''error'' of
        Inl e \<Rightarrow> Inl e
      | Inr v \<Rightarrow>
          (case to_string (nullish_default v (JStr ''unknown'')) of
             Inl e \<Rightarrow> Inl e
           | Inr s \<Rightarrow> Inr (''Recommendation failed: '' @ s)))"

text \<open>Lines 53 to 67.\<close>

definition make_doc :: "FormData \<Rightarrow> jsval \<Rightarrow> js_error + recommendation_doc" where
  "make_doc d json =
     (case get_prop json ''city'' of Inl e \<Rightarrow> Inl e | Inr c \<Rightarrow>
     (case get_prop json ''country'' of Inl e \<Rightarrow> Inl e | Inr k \<Rightarrow>
     (case get_prop json ''recommendation'' of Inl e \<Rightarrow> Inl e | Inr r \<Rightarrow>
        Inr \<lparr>doc_username = username d, doc_age = age d, doc_style = style d,
             doc_activity = activity d,
             doc_city = nullish_default c (JStr ''Unknown''),
             doc_country = nullish_default k (JStr ''Unknown''),
             doc_recommendation = nullish_default r (JStr ''Unknown'')\<rparr>)))"

text \<open>Lines 41 to 70. The result is \<open>Inl\<close> when the promise rejects.\<close>

definition onSubmit :: "client_world \<Rightarrow> FormData \<Rightarrow> (js_error + unit) \<times> client_effect list" where
  "onSubmit cw d =
     (case fetch_recommend cw d of
        Inl e \<Rightarrow> (Inl e, [FetchRecommend d])
      | Inr res \<Rightarrow>
         (case res_json res of
            Inl e \<Rightarrow> (Inl e, [FetchRecommend d])
          | Inr json \<Rightarrow>
             (case failed res json of
                Inl e \<Rightarrow> (Inl e, [FetchRecommend d])
              | Inr True \<Rightarrow>
                 (case alert_text json of
                    Inl e \<Rightarrow> (Inl e, [FetchRecommend d])
                  | Inr msg \<Rightarrow> (Inr (), [FetchRecommend d, Alert msg]))
              | Inr False \<Rightarrow>
                 (case make_doc d json of
                    Inl e \<Rightarrow> (Inl e, [FetchRecommend d])
                  | Inr doc \<Rightarrow>
                     (case addDoc cw doc of
                        Inl e \<Rightarrow> (Inl e, [FetchRecommend d, AddDoc doc])
                      | Inr u \<Rightarrow> (Inr (), [FetchRecommend d, AddDoc doc, Reset]))))))"

text \<open>
  Modelled from the spec: \<^verbatim>\<open>handleSubmit\<close> is code of the library react-hook-form,
  which is not among the sources. The spec has the input validated against the schema
  first, a validation failure block the submission and display the messages, and the
  submission run only when all four fields pass: the resolver of line 21 runs on the
  current values; if it reports an issue, the issues become \<^verbatim>\<open>formState.errors\<close> and
  the callback is not called; otherwise the errors are cleared and the callback runs on
  the values. \<^verbatim>\<open>reset()\<close> puts the default values of lines 22 to 27 back.
\<close>

definition handleSubmit ::
  "client_world \<Rightarrow> form_state \<Rightarrow> (js_error + unit) \<times> form_state \<times> client_effect list" where
  "handleSubmit cw st =
     (let issues = zodResolver FormSchema (form_values st) in
      if issues \<noteq> [] then (Inr (), st\<lparr>errors := issues\<rparr>, [])
      else
        (let (r, fx) = onSubmit cw (form_values st) in
         (r,
          \<lparr>form_values = (if Reset \<in> set fx then defaultValues else form_values st), errors = []\<rparr>,
          fx)))"

text \<open>The four minimum lengths of the schema, spelt out.\<close>

definition below_minimum :: "FormData \<Rightarrow> field \<Rightarrow> bool" where
  "below_minimum d f =
     (case f of
        Username \<Rightarrow> length (username d) < 2
      | Age \<Rightarrow> length (age d) < 1
      | Style \<Rightarrow> length (style d) < 3
      | Activity \<Rightarrow> length (activity d) < 3)"

subsection \<open>The display transform\<close>

text \<open>
  A JavaScript string is a sequence of UTF-16 code units. \<open>units\<close> gives the units of
  a text written in ASCII.
\<close>

type_synonym js_string = "16 word list"

definition units :: "string \<Rightarrow> js_string" where
  "units s = map of_char s"

text \<open>\<^verbatim>\<open>sentence[0]\<close>: \<^verbatim>\<open>undefined\<close> on the empty string, else the string of the first unit.\<close>

definition char_at0 :: "js_string \<Rightarrow> js_string option" where
  "char_at0 s = (case s of [] \<Rightarrow> None | c # cs \<Rightarrow> Some [c])"

text \<open>\<^verbatim>\<open>s.slice(b, e)\<close> for indices that are not negative: both are clamped to the length.\<close>

definition slice :: "js_string \<Rightarrow> nat \<Rightarrow> nat \<Rightarrow> js_string" where
  "slice s b e = take (min e (length s) - min b (length s)) (drop (min b (length s)) s)"

text \<open>
  Lines 72 to 78. The built-in \<^verbatim>\<open>toLocaleUpperCase\<close>, with the case tables of Unicode
  and the locale of the host, is not part of the sources: it is the first argument,
  and may be any function on strings (its result may be longer than its argument).
  Calling it on \<^verbatim>\<open>undefined\<close> throws a TypeError.
\<close>

definition capitaliseFirstLetter ::
  "(js_string \<Rightarrow> js_string) \<Rightarrow> js_string \<Rightarrow> js_error + js_string" where
  "capitaliseFirstLetter toLocaleUpperCase sentence =
     (let sentenceLength = length sentence in
      case char_at0 sentence of
        None \<Rightarrow> Inl TypeError
      | Some first \<Rightarrow>
          (let capitalisedFirstLetter = toLocaleUpperCase first;
               restOfSentence = slice sentence 1 sentenceLength;
               capitalisedSentence = capitalisedFirstLetter @ restOfSentence
           in Inr capitalisedSentence))"

section \<open>Example runs\<close>

definition example_body :: jsval where
  "example_body =
     JObj [(''username'', JStr ''Ana''), (''age'', JStr ''29''),
           (''style'', JStr ''Relaxed''), (''activity'', JStr ''Hiking'')]"

definition body_without_age :: jsval where
  "body_without_age =
     JObj [(''username'', JStr ''Ana''), (''style'', JStr ''Relaxed''),
           (''activity'', JStr ''Hiking'')]"

text \<open>A server whose environment has no credential, receiving the body \<open>b\<close>.\<close>

definition world_no_key :: "jsval \<Rightarrow> world" where
  "world_no_key b =
     \<lparr>env_GEMINI_API_KEY = None,
      req_json = Inr b,
      fetch = (\<lambda>rq. Inl TypeError),
      JSON_parse = (\<lambda>v. Inl SyntaxError)\<rparr>"

text \<open>A configured server whose request body is not JSON.\<close>

definition world_bad_body :: world where
  "world_bad_body =
     \<lparr>env_GEMINI_API_KEY = Some ''secret'',
      req_json = Inl SyntaxError,
      fetch = (\<lambda>rq. Inl TypeError),
      JSON_parse = (\<lambda>v. Inl SyntaxError)\<rparr>"

text \<open>
  The shape the AI service answers in, around the generated text, and a configured
  server that receives the body \<open>b\<close>, gets that answer with status 200, and on which
  \<^verbatim>\<open>JSON.parse\<close> of the text \<open>txt\<close> is \<open>parsed\<close>.
\<close>

definition gemini_envelope :: "string \<Rightarrow> jsval" where
  "gemini_envelope txt =
     JObj [(''candidates'',
            JArr [JObj [(''content'', JObj [(''parts'', JArr [JObj [(''text'', JStr txt)]])])]])]"

definition upstream_world :: "jsval \<Rightarrow> string \<Rightarrow> jsval \<Rightarrow> world" where
  "upstream_world b txt parsed =
     \<lparr>env_GEMINI_API_KEY = Some ''secret'',
      req_json = Inr b,
      fetch = (\<lambda>rq. Inr \<lparr>res_status = 200, res_text = Inr [],
                          res_json = Inr (gemini_envelope txt)\<rparr>),
      JSON_parse = (\<lambda>v. if v = JStr txt then Inr parsed else Inl SyntaxError)\<rparr>"

definition lisbon_text :: string where
  \<open>lisbon_text =
     ''{"city":"Lisbon","country":"Portugal","recommendation":"Walk the hills of Alfama."}''\<close>

definition lisbon :: jsval where
  "lisbon = JObj [(''city'', JStr ''Lisbon''), (''country'', JStr ''Portugal''),
                  (''recommendation'', JStr ''Walk the hills of Alfama.'')]"

definition no_country_text :: string where
  \<open>no_country_text = ''{"city":"Lisbon","recommendation":"Walk the hills of Alfama."}''\<close>

definition no_country :: jsval where
  "no_country = JObj [(''city'', JStr ''Lisbon''),
                      (''recommendation'', JStr ''Walk the hills of Alfama.'')]"

definition numeric_city_text :: string where
  \<open>numeric_city_text =
     ''{"city":5,"country":"Portugal","recommendation":"Walk the hills of Alfama."}''\<close>

definition numeric_city :: jsval where
  "numeric_city = JObj [(''city'', JNum 5), (''country'', JStr ''Portugal''),
                        (''recommendation'', JStr ''Walk the hills of Alfama.'')]"

text \<open>
  The endpoint's answer as the page's \<^verbatim>\<open>fetch\<close> delivers it (the page reads only
  \<^verbatim>\<open>ok\<close> and \<^verbatim>\<open>json()\<close>), and a browser in which \<^verbatim>\<open>fetch\<close> delivers \<open>res\<close> and the
  store accepts every document.
\<close>

definition http_of :: "response \<Rightarrow> http_response" where
  "http_of r = \<lparr>res_status = status r, res_text = Inl TypeError, res_json = Inr (body r)\<rparr>"

definition client_of :: "http_response \<Rightarrow> client_world" where
  "client_of res = \<lparr>fetch_recommend = (\<lambda>d. Inr res), addDoc = (\<lambda>doc. Inr ())\<rparr>"

definition ana :: FormData where
  "ana = \<lparr>username = ''Ana'', age = ''29'', style = ''Relaxed'', activity = ''Hiking''\<rparr>"

definition short_username :: FormData where
  "short_username =
     \<lparr>username = ''A'', age = ''29'', style = ''Relaxed'', activity = ''Hiking''\<rparr>"

text \<open>A 2xx body whose city is the empty string, whose country is \<^verbatim>\<open>null\<close>, and which has no recommendation.\<close>

definition empty_city_body :: jsval where
  "empty_city_body = JObj [(''city'', JStr []), (''country'', JNull)]"

text \<open>A 2xx body with an \<^verbatim>\<open>error\<close> key whose value is the empty string.\<close>

definition empty_error_body :: jsval where
  "empty_error_body =
     JObj [(''error'', JStr []), (''city'', JStr ''Lisbon''), (''country'', JStr ''Portugal''),
           (''recommendation'', JStr ''Walk the hills of Alfama.'')]"

text \<open>A 2xx body with an error message.\<close>

definition busy_body :: jsval where
  "busy_body = JObj [(''error'', JStr ''busy'')]"

text \<open>An error body whose \<^verbatim>\<open>error\<close> is an object that hides \<^verbatim>\<open>toString\<close>.\<close>

definition unprintable_error_body :: jsval where
  "unprintable_error_body = JObj [(''error'', JObj [(''toString'', JNum 1)])]"

text \<open>The answer of a gateway in front of the endpoint: status 502 and a body that is not JSON.\<close>

definition bad_gateway :: http_response where
  "bad_gateway =
     \<lparr>res_status = 502, res_text = Inr ''<html>Bad Gateway</html>'', res_json = Inl SyntaxError\<rparr>"

text \<open>
  A fragment of \<^verbatim>\<open>toLocaleUpperCase\<close> on one unit: a to z go to A to Z, e with acute
  (U+00E9) goes to U+00C9, sharp s (U+00DF) goes to the two units SS, and every other
  unit is left as it is.
\<close>

definition sample_upper :: "js_string \<Rightarrow> js_string" where
  "sample_upper s =
     concat (map (\<lambda>c.
        if c = 0xDF then units ''SS''
        else if c = 0xE9 then [0xC9]
        else (case map_of (zip (units ''abcdefghijklmnopqrstuvwxyz'')
                               (units ''ABCDEFGHIJKLMNOPQRSTUVWXYZ'')) c of
                Some u \<Rightarrow> [u]
              | None \<Rightarrow> [c])) s)"

section \<open>Properties of the endpoint\<close>

subsection \<open>Status codes and the path to the upstream answer\<close>

lemma check_fields_status:
  "status (check_fields c k r) = 200 \<or> status (check_fields c k r) = 500"
  by (simp add: check_fields_def error_response_def)

lemma handle_upstream_status:
  "fst (handle_upstream w res) = Inr r \<Longrightarrow> status r = 200 \<or> status r = 500"
  using check_fields_status
  by (auto simp: handle_upstream_def error_response_def split: if_splits sum.splits prod.splits)

lemma POST_try_status:
  "fst (POST_try w) = Inr r \<Longrightarrow> status r = 200 \<or> status r = 400 \<or> status r = 500"
  using handle_upstream_status
  by (auto simp: POST_try_def error_response_def Let_def split: if_splits sum.splits)

lemma POST_status:
  "status (fst (POST w)) = 200 \<or> status (fst (POST w)) = 400 \<or> status (fst (POST w)) = 500"
  using POST_try_status [of w]
  by (cases "POST_try w") (auto simp: POST_def error_response_def split: sum.splits)

lemma POST_try_upstream:
  assumes "env_GEMINI_API_KEY w = Some key" "key \<noteq> []"
    and "req_json w = Inr b" "\<not> nullish b" "\<not> missing_fields b"
    and "build_prompt (lookup_prop b ''username'') (lookup_prop b ''age'')
           (lookup_prop b ''style'') (lookup_prop b ''activity'') = Inr p"
    and "fetch w \<lparr>url = apiUrl key, prompt_text = p\<rparr> = Inr res"
  shows "POST_try w = (fst (handle_upstream w res),
                       Fetch \<lparr>url = apiUrl key, prompt_text = p\<rparr> # snd (handle_upstream w res))"
  using assms by (simp add: POST_try_def)

lemma handle_upstream_parsed:
  assumes "res_ok res" "res_json res = Inr data" "rawJsonText data = Inr raw" "truthy raw"
    and "parse_fields w raw = Inr (c, k, r)"
  shows "handle_upstream w res = (Inr (check_fields c k r), [])"
  using assms by (simp add: handle_upstream_def)

lemma POST_parsed:
  assumes "env_GEMINI_API_KEY w = Some key" "key \<noteq> []"
    and "req_json w = Inr b" "\<not> nullish b" "\<not> missing_fields b"
    and "build_prompt (lookup_prop b ''username'') (lookup_prop b ''age'')
           (lookup_prop b ''style'') (lookup_prop b ''activity'') = Inr p"
    and "fetch w \<lparr>url = apiUrl key, prompt_text = p\<rparr> = Inr res"
    and "res_ok res" "res_json res = Inr data" "rawJsonText data = Inr raw" "truthy raw"
    and "parse_fields w raw = Inr (c, k, r)"
  shows "POST w = (check_fields c k r, [Fetch \<lparr>url = apiUrl key, prompt_text = p\<rparr>])"
proof -
  have "handle_upstream w res = (Inr (check_fields c k r), [])"
    using assms(8-12) by (rule handle_upstream_parsed)
  with POST_try_upstream [OF assms(1-7)]
  have "POST_try w = (Inr (check_fields c k r), [Fetch \<lparr>url = apiUrl key, prompt_text = p\<rparr>])"
    by simp
  then show ?thesis by (simp add: POST_def)
qed

lemma rawJsonText_envelope: "rawJsonText (gemini_envelope txt) = Inr (JStr txt)"
  by (simp add: rawJsonText_def gemini_envelope_def get_prop_def opt_member_def opt_index0_def)

lemma example_prompt:
  "\<exists>p. build_prompt (lookup_prop example_body ''username'') (lookup_prop example_body ''age'')
         (lookup_prop example_body ''style'') (lookup_prop example_body ''activity'') = Inr p"
  by (simp add: example_body_def build_prompt_def)

subsection \<open>The validation gate\<close>

text \<open>
  Claim C1, as the code has it. The credential gate comes first, and a body that is
  \<^verbatim>\<open>null\<close> or cannot be parsed throws before the fields are looked at. So: on a
  server whose credential is set, for a request body that parses to a value other
  than \<^verbatim>\<open>null\<close>, the endpoint answers 400 exactly when one of username, age, style,
  activity is falsy. In every case an answer of 400 is the missing-fields error, the
  credential was set, the body had a falsy field, and the run did nothing else: no
  request went to the AI service.
\<close>

theorem POST_400_iff_missing_fields:
  "(key_set (env_GEMINI_API_KEY w) \<and> req_json w = Inr b \<and> \<not> nullish b \<longrightarrow>
      (status (fst (POST w)) = 400 \<longleftrightarrow> missing_fields b))
   \<and> (status (fst (POST w)) = 400 \<longrightarrow>
        POST w = (error_response ''missing fields'' 400, [])
        \<and> no_external_call (snd (POST w))
        \<and> key_set (env_GEMINI_API_KEY w)
        \<and> (\<exists>b'. req_json w = Inr b' \<and> missing_fields b'))"
proof (intro conjI impI)
  assume a: "key_set (env_GEMINI_API_KEY w) \<and> req_json w = Inr b \<and> \<not> nullish b"
  show "status (fst (POST w)) = 400 \<longleftrightarrow> missing_fields b"
  proof (cases "missing_fields b")
    case True
    with a show ?thesis by (simp add: POST_def POST_try_def error_response_def)
  next
    case False
    have "status (fst (POST w)) \<noteq> 400"
    proof (cases "POST_try w")
      case (Pair x fx)
      show ?thesis
      proof (cases x)
        case (Inl e)
        with Pair show ?thesis by (simp add: POST_def error_response_def)
      next
        case (Inr r)
        with Pair a False have "status r = 200 \<or> status r = 500"
          using handle_upstream_status
          by (auto simp: POST_try_def Let_def split: sum.splits)
        with Pair Inr show ?thesis by (auto simp: POST_def)
      qed
    qed
    with False show ?thesis by simp
  qed
next
  assume s: "status (fst (POST w)) = 400"
  have *: "POST w = (error_response ''missing fields'' 400, [])
           \<and> key_set (env_GEMINI_API_KEY w) \<and> (\<exists>b'. req_json w = Inr b' \<and> missing_fields b')"
  proof (cases "POST_try w")
    case (Pair x fx)
    show ?thesis
    proof (cases x)
      case (Inl e)
      with Pair s show ?thesis by (simp add: POST_def error_response_def)
    next
      case (Inr r)
      with Pair s have r: "status r = 400" by (simp add: POST_def)
      with Pair Inr have "r = error_response ''missing fields'' 400 \<and> fx = []
          \<and> key_set (env_GEMINI_API_KEY w) \<and> (\<exists>b'. req_json w = Inr b' \<and> missing_fields b')"
        by (auto simp: POST_try_def Let_def error_response_def split: sum.splits if_splits
            dest: handle_upstream_status)
      with Pair Inr show ?thesis by (simp add: POST_def)
    qed
  qed
  from * show "POST w = (error_response ''missing fields'' 400, [])" by simp
  from * show "no_external_call (snd (POST w))" by (simp add: no_external_call_def)
  from * show "key_set (env_GEMINI_API_KEY w)" by simp
  from * show "\<exists>b'. req_json w = Inr b' \<and> missing_fields b'" by simp
qed

theorem POST_400_iff_missing_fields_witness:
  "key_set (env_GEMINI_API_KEY (upstream_world body_without_age lisbon_text lisbon))
   \<and> req_json (upstream_world body_without_age lisbon_text lisbon) = Inr body_without_age
   \<and> missing_fields body_without_age
   \<and> POST (upstream_world body_without_age lisbon_text lisbon)
       = (\<lparr>status = 400, body = JObj [(''error'', JStr ''missing fields'')]\<rparr>, [])
   \<and> status (fst (POST (upstream_world example_body lisbon_text lisbon))) \<noteq> 400"
proof -
  have m: "missing_fields body_without_age" "\<not> missing_fields example_body"
    by (simp_all add: missing_fields_def body_without_age_def example_body_def)
  have n: "\<not> nullish body_without_age" "\<not> nullish example_body"
    by (simp_all add: body_without_age_def example_body_def)
  have "status (fst (POST (upstream_world body_without_age lisbon_text lisbon))) = 400"
    using POST_400_iff_missing_fields
      [of "upstream_world body_without_age lisbon_text lisbon" body_without_age] m n
    by (simp add: upstream_world_def)
  then have "POST (upstream_world body_without_age lisbon_text lisbon)
       = (error_response ''missing fields'' 400, [])"
    using POST_400_iff_missing_fields
      [of "upstream_world body_without_age lisbon_text lisbon" body_without_age]
    by blast
  moreover have "status (fst (POST (upstream_world example_body lisbon_text lisbon))) \<noteq> 400"
    using POST_400_iff_missing_fields
      [of "upstream_world example_body lisbon_text lisbon" example_body] m n
    by (simp add: upstream_world_def)
  ultimately show ?thesis
    using m by (simp add: upstream_world_def error_response_def)
qed

text \<open>
  Claim C1 as stated fails where the credential is not set: the body lacks age, and the
  answer is 500, not 400.
\<close>

theorem POST_400_iff_missing_fields_counterexample:
  "req_json (world_no_key body_without_age) = Inr body_without_age
   \<and> missing_fields body_without_age
   \<and> status (fst (POST (world_no_key body_without_age))) = 500
   \<and> status (fst (POST (world_no_key body_without_age))) \<noteq> 400"
  by (simp add: world_no_key_def missing_fields_def body_without_age_def POST_def POST_try_def
      error_response_def)

subsection \<open>The configuration gate\<close>

text \<open>
  Claim C2. When the credential is not set in the environment (absent, or the empty
  string, which the handler's test treats alike), every request is answered 500 with
  the configuration error, whatever the request body is and even when it cannot be
  parsed, and nothing has been sent to the AI service: the run has no effect at all.
\<close>

theorem POST_key_unset:
  assumes "env_GEMINI_API_KEY w = None \<or> env_GEMINI_API_KEY w = Some []"
  shows "POST w = (error_response ''GEMINI_API_KEY environment variable not set'' 500, [])
         \<and> status (fst (POST w)) = 500
         \<and> no_external_call (snd (POST w))"
  using assms by (auto simp: POST_def POST_try_def no_external_call_def error_response_def)

theorem POST_key_unset_witness:
  "env_GEMINI_API_KEY (world_no_key example_body) = None
   \<and> POST (world_no_key example_body)
       = (\<lparr>status = 500,
           body = JObj [(''error'', JStr ''GEMINI_API_KEY environment variable not set'')]\<rparr>, [])"
  using POST_key_unset [of "world_no_key example_body"]
  by (simp add: world_no_key_def error_response_def)

subsection \<open>The checks on the parsed answer\<close>

text \<open>
  Claim C3, as the code has it. When the text of the AI service parses to a value other
  than \<^verbatim>\<open>null\<close> (the credential is set, the body is complete, the service answered
  2xx with a text), the handler tests city, country and recommendation of the parsed
  value in this order and answers 500 naming the first one that is falsy.
\<close>

theorem missing_output_field_reported_in_order:
  assumes "env_GEMINI_API_KEY w = Some key" "key \<noteq> []"
    and "req_json w = Inr b" "\<not> nullish b" "\<not> missing_fields b"
    and "build_prompt (lookup_prop b ''username'') (lookup_prop b ''age'')
           (lookup_prop b ''style'') (lookup_prop b ''activity'') = Inr p"
    and "fetch w \<lparr>url = apiUrl key, prompt_text = p\<rparr> = Inr res"
    and "res_ok res" "res_json res = Inr data" "rawJsonText data = Inr raw" "truthy raw"
    and "JSON_parse w raw = Inr parsed" "\<not> nullish parsed"
  shows "(\<not> truthy (lookup_prop parsed ''city'') \<longrightarrow>
            fst (POST w) = error_response ''AI response missing 'city' field'' 500)
       \<and> (truthy (lookup_prop parsed ''city'') \<and> \<not> truthy (lookup_prop parsed ''country'') \<longrightarrow>
            fst (POST w) = error_response ''AI response missing 'country' field'' 500)
       \<and> (truthy (lookup_prop parsed ''city'') \<and> truthy (lookup_prop parsed ''country'')
            \<and> \<not> truthy (lookup_prop parsed ''recommendation'') \<longrightarrow>
            fst (POST w) = error_response ''AI response missing 'recommendation' field'' 500)"
proof -
  have "parse_fields w raw = Inr (lookup_prop parsed ''city'', lookup_prop parsed ''country'',
          lookup_prop parsed ''recommendation'')"
    using assms(12,13) by (simp add: parse_fields_def get_prop_def)
  from POST_parsed [OF assms(1-11) this] show ?thesis by (simp add: check_fields_def)
qed

theorem missing_output_field_reported_in_order_witness:
  "JSON_parse (upstream_world example_body no_country_text no_country) (JStr no_country_text)
     = Inr no_country
   \<and> truthy (lookup_prop no_country ''city'')
   \<and> \<not> truthy (lookup_prop no_country ''country'')
   \<and> fst (POST (upstream_world example_body no_country_text no_country))
     = \<lparr>status = 500, body = JObj [(''error'', JStr ''AI response missing 'country' field'')]\<rparr>"
proof -
  let ?w = "upstream_world example_body no_country_text no_country"
  obtain p where p:
    "build_prompt (lookup_prop example_body ''username'') (lookup_prop example_body ''age'')
       (lookup_prop example_body ''style'') (lookup_prop example_body ''activity'') = Inr p"
    using example_prompt by blast
  have jp: "JSON_parse ?w (JStr no_country_text) = Inr no_country"
    by (simp add: upstream_world_def)
  have c: "truthy (lookup_prop no_country ''city'')" "\<not> truthy (lookup_prop no_country ''country'')"
    "\<not> nullish no_country"
    by (simp_all add: no_country_def)
  have "fst (POST ?w) = error_response ''AI response missing 'country' field'' 500"
    using missing_output_field_reported_in_order [of ?w "''secret''" example_body p
        "\<lparr>res_status = 200, res_text = Inr [], res_json = Inr (gemini_envelope no_country_text)\<rparr>"
        "gemini_envelope no_country_text" "JStr no_country_text" no_country] p jp c
    by (simp add: upstream_world_def example_body_def missing_fields_def res_ok_def
        rawJsonText_envelope no_country_text_def)
  with jp c show ?thesis by (simp add: error_response_def)
qed

text \<open>
  Claim C3 as stated fails on the JSON text \<^verbatim>\<open>null\<close>: it parses, none of the three
  fields is there, and the answer is the 500 for invalid JSON, not the one naming
  city, because reading a property of \<^verbatim>\<open>null\<close> throws inside the inner \<^verbatim>\<open>try\<close>.
\<close>

theorem missing_output_field_reported_in_order_counterexample:
  "JSON_parse (upstream_world example_body ''null'' JNull) (JStr ''null'') = Inr JNull
   \<and> \<not> truthy (lookup_prop JNull ''city'')
   \<and> fst (POST (upstream_world example_body ''null'' JNull))
       = \<lparr>status = 500, body = JObj [(''error'', JStr ''Invalid JSON format from AI'')]\<rparr>
   \<and> fst (POST (upstream_world example_body ''null'' JNull))
       \<noteq> error_response ''AI response missing 'city' field'' 500"
  by (simp add: POST_def POST_try_def upstream_world_def example_body_def missing_fields_def
      build_prompt_def handle_upstream_def res_ok_def rawJsonText_envelope
      parse_fields_def get_prop_def error_response_def)

text \<open>
  Claim C4, as the code has it. On full success (the credential is set, the four input
  fields are truthy, the AI service answered 2xx with a text, the text parsed, and the
  three values read off it are truthy) the endpoint answers 200 with a body of exactly
  the three keys city, country, recommendation, in this order, holding those three
  values. The handler tests the values for truthiness only, so each of them is a
  non-empty string whenever it is a string.
\<close>

theorem POST_full_success:
  assumes "env_GEMINI_API_KEY w = Some key" "key \<noteq> []"
    and "req_json w = Inr b" "\<not> nullish b" "\<not> missing_fields b"
    and "build_prompt (lookup_prop b ''username'') (lookup_prop b ''age'')
           (lookup_prop b ''style'') (lookup_prop b ''activity'') = Inr p"
    and "fetch w \<lparr>url = apiUrl key, prompt_text = p\<rparr> = Inr res"
    and "res_ok res" "res_json res = Inr data" "rawJsonText data = Inr raw" "truthy raw"
    and "parse_fields w raw = Inr (c, k, r)"
    and "truthy c" "truthy k" "truthy r"
  shows "fst (POST w) = \<lparr>status = 200,
            body = JObj [(''city'', c), (''country'', k), (''recommendation'', r)]\<rparr>
       \<and> (\<forall>s. c = JStr s \<longrightarrow> nonempty_string c)
       \<and> (\<forall>s. k = JStr s \<longrightarrow> nonempty_string k)
       \<and> (\<forall>s. r = JStr s \<longrightarrow> nonempty_string r)"
  using POST_parsed [OF assms(1-12)] assms(13-15) by (auto simp: check_fields_def)

theorem POST_full_success_witness:
  "parse_fields (upstream_world example_body lisbon_text lisbon) (JStr lisbon_text)
     = Inr (JStr ''Lisbon'', JStr ''Portugal'', JStr ''Walk the hills of Alfama.'')
   \<and> fst (POST (upstream_world example_body lisbon_text lisbon))
     = \<lparr>status = 200, body = lisbon\<rparr>"
proof -
  let ?w = "upstream_world example_body lisbon_text lisbon"
  obtain p where p:
    "build_prompt (lookup_prop example_body ''username'') (lookup_prop example_body ''age'')
       (lookup_prop example_body ''style'') (lookup_prop example_body ''activity'') = Inr p"
    using example_prompt by blast
  have pf: "parse_fields ?w (JStr lisbon_text)
     = Inr (JStr ''Lisbon'', JStr ''Portugal'', JStr ''Walk the hills of Alfama.'')"
    by (simp add: parse_fields_def upstream_world_def lisbon_def get_prop_def)
  have "fst (POST ?w) = \<lparr>status = 200, body = lisbon\<rparr>"
    using POST_full_success [of ?w "''secret''" example_body p
        "\<lparr>res_status = 200, res_text = Inr [], res_json = Inr (gemini_envelope lisbon_text)\<rparr>"
        "gemini_envelope lisbon_text" "JStr lisbon_text"
        "JStr ''Lisbon''" "JStr ''Portugal''" "JStr ''Walk the hills of Alfama.''"] p pf
    by (simp add: upstream_world_def example_body_def missing_fields_def res_ok_def
        rawJsonText_envelope lisbon_text_def lisbon_def)
  with pf show ?thesis by simp
qed

text \<open>
  Claim C4 as stated fails where the AI service sends a value that is truthy but not
  a string: every gate is passed, the answer is 200, and its city is the number 5.
\<close>

theorem POST_full_success_counterexample:
  "key_set (env_GEMINI_API_KEY (upstream_world example_body numeric_city_text numeric_city))
   \<and> req_json (upstream_world example_body numeric_city_text numeric_city) = Inr example_body
   \<and> \<not> missing_fields example_body
   \<and> parse_fields (upstream_world example_body numeric_city_text numeric_city)
         (JStr numeric_city_text)
       = Inr (JNum 5, JStr ''Portugal'', JStr ''Walk the hills of Alfama.'')
   \<and> truthy (JNum 5)
   \<and> status (fst (POST (upstream_world example_body numeric_city_text numeric_city))) = 200
   \<and> lookup_prop (body (fst (POST (upstream_world example_body numeric_city_text numeric_city))))
         ''city'' = JNum 5
   \<and> \<not> nonempty_string (JNum 5)"
  by (simp add: POST_def POST_try_def upstream_world_def example_body_def missing_fields_def
      build_prompt_def handle_upstream_def res_ok_def rawJsonText_envelope numeric_city_text_def
      parse_fields_def get_prop_def numeric_city_def check_fields_def)

subsection \<open>The shape of every answer\<close>

lemma check_fields_shape:
  "(\<exists>msg. msg \<noteq> [] \<and> check_fields c k r = error_response msg 500)
   \<or> (truthy c \<and> truthy k \<and> truthy r \<and> check_fields c k r
        = \<lparr>status = 200, body = JObj [(''city'', c), (''country'', k), (''recommendation'', r)]\<rparr>)"
  by (auto simp: check_fields_def error_response_def)

lemma handle_upstream_shape:
  assumes "fst (handle_upstream w res) = Inr x"
  shows "(\<exists>msg. msg \<noteq> [] \<and> x = error_response msg 500)
   \<or> (\<exists>c k r. truthy c \<and> truthy k \<and> truthy r \<and> x
        = \<lparr>status = 200, body = JObj [(''city'', c), (''country'', k), (''recommendation'', r)]\<rparr>)"
proof -
  have "x = error_response ''Gemini API request failed'' 500
      \<or> x = error_response ''Could not get structured recommendation from AI'' 500
      \<or> x = error_response ''Invalid JSON format from AI'' 500
      \<or> (\<exists>c k r. x = check_fields c k r)"
    using assms by (auto simp: handle_upstream_def split: if_splits sum.splits prod.splits)
  moreover have "(\<exists>msg. msg \<noteq> [] \<and> check_fields c k r = error_response msg 500)
   \<or> (\<exists>c' k' r'. truthy c' \<and> truthy k' \<and> truthy r' \<and> check_fields c k r
        = \<lparr>status = 200, body = JObj [(''city'', c'), (''country'', k'), (''recommendation'', r')]\<rparr>)"
    for c k r
    using check_fields_shape [of c k r] by blast
  ultimately show ?thesis by (elim disjE exE) (simp_all, blast+)
qed

lemma POST_try_shape:
  assumes "fst (POST_try w) = Inr x"
  shows "(\<exists>msg. msg \<noteq> [] \<and> (x = error_response msg 400 \<or> x = error_response msg 500))
   \<or> (\<exists>c k r. truthy c \<and> truthy k \<and> truthy r \<and> x
        = \<lparr>status = 200, body = JObj [(''city'', c), (''country'', k), (''recommendation'', r)]\<rparr>)"
proof -
  have "x = error_response ''GEMINI_API_KEY environment variable not set'' 500
      \<or> x = error_response ''missing fields'' 400
      \<or> (\<exists>res. fst (handle_upstream w res) = Inr x)"
    using assms by (auto simp: POST_try_def Let_def split: if_splits sum.splits)
  then show ?thesis
  proof (elim disjE exE)
    fix res assume "fst (handle_upstream w res) = Inr x"
    from handle_upstream_shape [OF this] show ?thesis by blast
  qed blast+
qed

lemma POST_response_shape:
  "(\<exists>msg. msg \<noteq> [] \<and> (fst (POST w) = error_response msg 400 \<or> fst (POST w) = error_response msg 500))
   \<or> (\<exists>c k r. truthy c \<and> truthy k \<and> truthy r \<and> fst (POST w)
        = \<lparr>status = 200, body = JObj [(''city'', c), (''country'', k), (''recommendation'', r)]\<rparr>)"
proof (cases "POST_try w")
  case (Pair x fx)
  show ?thesis
  proof (cases x)
    case (Inl e)
    with Pair have "fst (POST w) = error_response ''Server processing error'' 500"
      by (simp add: POST_def)
    then show ?thesis by auto
  next
    case (Inr r)
    with Pair have "fst (POST w) = r" "fst (POST_try w) = Inr r" by (simp_all add: POST_def)
    then show ?thesis using POST_try_shape [of w r] by simp
  qed
qed

subsection \<open>The outer catch\<close>

text \<open>
  Claim C5. The handler never lets an exception out. Its whole body is inside the outer
  \<^verbatim>\<open>try\<close>, so a run either returns the answer of the body or, when anything in the body
  throws (\<open>POST_try\<close> ends in \<open>Inl\<close>: the request body does not parse or is \<^verbatim>\<open>null\<close>,
  \<^verbatim>\<open>fetch\<close> rejects, the upstream body cannot be read), the generic 500 with the message
  ``Server processing error''. In particular a request body that fails to parse, on a
  configured server, gets that answer. Every run ends with status 200, 400 or 500. (What
  throws inside the inner \<^verbatim>\<open>try\<close> is answered there, by the 500 for invalid JSON, and
  never reaches the outer \<^verbatim>\<open>catch\<close>.)
\<close>

theorem POST_never_throws:
  "(status (fst (POST w)) = 200 \<or> status (fst (POST w)) = 400 \<or> status (fst (POST w)) = 500)
   \<and> (\<forall>e. fst (POST_try w) = Inl e \<longrightarrow>
         fst (POST w) = error_response ''Server processing error'' 500)
   \<and> (key_set (env_GEMINI_API_KEY w) \<and> (\<exists>e. req_json w = Inl e) \<longrightarrow>
         fst (POST w) = error_response ''Server processing error'' 500)
   \<and> (key_set (env_GEMINI_API_KEY w) \<and> req_json w = Inr JNull \<longrightarrow>
         fst (POST w) = error_response ''Server processing error'' 500)
   \<and> (env_GEMINI_API_KEY w = Some key \<and> key \<noteq> [] \<and> req_json w = Inr b \<and> \<not> nullish b
        \<and> \<not> missing_fields b
        \<and> build_prompt (lookup_prop b ''username'') (lookup_prop b ''age'')
             (lookup_prop b ''style'') (lookup_prop b ''activity'') = Inr p
        \<and> (\<exists>e. fetch w \<lparr>url = apiUrl key, prompt_text = p\<rparr> = Inl e) \<longrightarrow>
         fst (POST w) = error_response ''Server processing error'' 500)"
proof (intro conjI allI impI)
  show "status (fst (POST w)) = 200 \<or> status (fst (POST w)) = 400 \<or> status (fst (POST w)) = 500"
    by (rule POST_status)
next
  fix e assume "fst (POST_try w) = Inl e"
  then show "fst (POST w) = error_response ''Server processing error'' 500"
    by (cases "POST_try w") (simp add: POST_def)
next
  assume "key_set (env_GEMINI_API_KEY w) \<and> (\<exists>e. req_json w = Inl e)"
  then show "fst (POST w) = error_response ''Server processing error'' 500"
    by (auto simp: POST_def POST_try_def)
next
  assume "key_set (env_GEMINI_API_KEY w) \<and> req_json w = Inr JNull"
  then show "fst (POST w) = error_response ''Server processing error'' 500"
    by (simp add: POST_def POST_try_def)
next
  assume "env_GEMINI_API_KEY w = Some key \<and> key \<noteq> [] \<and> req_json w = Inr b \<and> \<not> nullish b
        \<and> \<not> missing_fields b
        \<and> build_prompt (lookup_prop b ''username'') (lookup_prop b ''age'')
             (lookup_prop b ''style'') (lookup_prop b ''activity'') = Inr p
        \<and> (\<exists>e. fetch w \<lparr>url = apiUrl key, prompt_text = p\<rparr> = Inl e)"
  then show "fst (POST w) = error_response ''Server processing error'' 500"
    by (auto simp: POST_def POST_try_def)
qed

theorem POST_never_throws_witness:
  "key_set (env_GEMINI_API_KEY world_bad_body)
   \<and> req_json world_bad_body = Inl SyntaxError
   \<and> fst (POST_try world_bad_body) = Inl SyntaxError
   \<and> fst (POST world_bad_body)
       = \<lparr>status = 500, body = JObj [(''error'', JStr ''Server processing error'')]\<rparr>"
proof -
  have a: "key_set (env_GEMINI_API_KEY world_bad_body)" "req_json world_bad_body = Inl SyntaxError"
    by (simp_all add: world_bad_body_def)
  have b: "fst (POST_try world_bad_body) = Inl SyntaxError"
    by (simp add: POST_try_def world_bad_body_def)
  from a have "fst (POST world_bad_body) = error_response ''Server processing error'' 500"
    using POST_never_throws [of world_bad_body] by blast
  with a b show ?thesis by (simp add: error_response_def)
qed

section \<open>Properties of the page\<close>

subsection \<open>A failed call of the endpoint\<close>

lemma onSubmit_alert:
  assumes "fetch_recommend cw d = Inr res" "res_json res = Inr json" "\<not> nullish json"
    and "\<not> res_ok res \<or> truthy (lookup_prop json ''error'')"
    and "to_string (nullish_default (lookup_prop json ''error'') (JStr ''unknown'')) = Inr txt"
  shows "onSubmit cw d = (Inr (), [FetchRecommend d, Alert (''Recommendation failed: '' @ txt)])"
  using assms by (auto simp: onSubmit_def failed_def alert_text_def get_prop_def)

lemma onSubmit_failure_no_write:
  assumes "fetch_recommend cw d = Inr res"
    and "\<not> res_ok res \<or> (\<exists>json. res_json res = Inr json \<and> truthy (lookup_prop json ''error''))"
  shows "filter is_AddDoc (snd (onSubmit cw d)) = [] \<and> Reset \<notin> set (snd (onSubmit cw d))"
  using assms
  by (auto simp: onSubmit_def failed_def get_prop_def split: sum.splits bool.splits)

text \<open>
  Claim C6, as the code has it. Let the page's \<^verbatim>\<open>fetch\<close> deliver the response \<open>res\<close>.
  If the status is not 2xx, or the body carries a truthy \<^verbatim>\<open>error\<close>, the submission
  stops without a write: \<^verbatim>\<open>addDoc\<close> is not called and the form is not reset, whatever
  the body is. If moreover the body is JSON other than \<^verbatim>\<open>null\<close> and its error (or the
  text ``unknown'' in its place) converts to a string, the page shows the alert with
  that text and returns, having done nothing but the fetch and the alert.
\<close>

theorem onSubmit_failure_alerts_and_stops:
  assumes "fetch_recommend cw d = Inr res"
  shows "((\<not> res_ok res \<or> (\<exists>j. res_json res = Inr j \<and> truthy (lookup_prop j ''error''))) \<longrightarrow>
            filter is_AddDoc (snd (onSubmit cw d)) = [] \<and> Reset \<notin> set (snd (onSubmit cw d)))
       \<and> (res_json res = Inr json \<and> \<not> nullish json
            \<and> (\<not> res_ok res \<or> truthy (lookup_prop json ''error''))
            \<and> to_string (nullish_default (lookup_prop json ''error'') (JStr ''unknown'')) = Inr txt \<longrightarrow>
            onSubmit cw d = (Inr (), [FetchRecommend d, Alert (''Recommendation failed: '' @ txt)]))"
proof (intro conjI impI)
  assume "\<not> res_ok res \<or> (\<exists>j. res_json res = Inr j \<and> truthy (lookup_prop j ''error''))"
  with assms have "filter is_AddDoc (snd (onSubmit cw d)) = [] \<and> Reset \<notin> set (snd (onSubmit cw d))"
    by (rule onSubmit_failure_no_write)
  then show "filter is_AddDoc (snd (onSubmit cw d)) = []" and "Reset \<notin> set (snd (onSubmit cw d))"
    by simp_all
next
  assume h: "res_json res = Inr json \<and> \<not> nullish json
            \<and> (\<not> res_ok res \<or> truthy (lookup_prop json ''error''))
            \<and> to_string (nullish_default (lookup_prop json ''error'') (JStr ''unknown'')) = Inr txt"
  show "onSubmit cw d = (Inr (), [FetchRecommend d, Alert (''Recommendation failed: '' @ txt)])"
  proof (rule onSubmit_alert [OF assms])
    show "res_json res = Inr json" using h by simp
    show "\<not> nullish json" using h by simp
    show "\<not> res_ok res \<or> truthy (lookup_prop json ''error'')" using h by simp
    show "to_string (nullish_default (lookup_prop json ''error'') (JStr ''unknown'')) = Inr txt"
      using h by simp
  qed
qed

theorem onSubmit_failure_alerts_and_stops_witness:
  "\<not> res_ok (http_of (fst (POST (world_no_key example_body))))
   \<and> onSubmit (client_of (http_of (fst (POST (world_no_key example_body))))) ana
       = (Inr (), [FetchRecommend ana,
            Alert ''Recommendation failed: GEMINI_API_KEY environment variable not set''])
   \<and> filter is_AddDoc
        (snd (onSubmit (client_of (http_of (fst (POST (world_no_key example_body))))) ana)) = []
   \<and> res_ok (http_of \<lparr>status = 200, body = busy_body\<rparr>)
   \<and> truthy (lookup_prop busy_body ''error'')
   \<and> onSubmit (client_of (http_of \<lparr>status = 200, body = busy_body\<rparr>)) ana
       = (Inr (), [FetchRecommend ana, Alert ''Recommendation failed: busy''])"
proof -
  let ?r = "fst (POST (world_no_key example_body))"
  let ?e = "JObj [(''error'', JStr ''GEMINI_API_KEY environment variable not set'')]"
  have r: "?r = \<lparr>status = 500, body = ?e\<rparr>"
    by (simp add: POST_def POST_try_def world_no_key_def error_response_def)
  have f: "fetch_recommend (client_of (http_of ?r)) ana = Inr (http_of ?r)"
    by (simp add: client_of_def)
  have n: "\<not> res_ok (http_of ?r)" by (simp add: r res_ok_def http_of_def)
  have j: "res_json (http_of ?r) = Inr ?e" "\<not> nullish ?e"
    "to_string (nullish_default (lookup_prop ?e ''error'') (JStr ''unknown''))
       = Inr ''GEMINI_API_KEY environment variable not set''"
    by (simp_all add: r http_of_def nullish_default_def)
  from onSubmit_failure_alerts_and_stops [OF f, of ?e
      "''GEMINI_API_KEY environment variable not set''"] n j
  have 1: "filter is_AddDoc (snd (onSubmit (client_of (http_of ?r)) ana)) = []"
    and 2: "onSubmit (client_of (http_of ?r)) ana
       = (Inr (), [FetchRecommend ana,
            Alert ''Recommendation failed: GEMINI_API_KEY environment variable not set''])"
    by simp_all
  let ?b = "http_of \<lparr>status = 200, body = busy_body\<rparr>"
  have fb: "fetch_recommend (client_of ?b) ana = Inr ?b" by (simp add: client_of_def)
  have ob: "res_ok ?b" "truthy (lookup_prop busy_body ''error'')"
    by (simp_all add: res_ok_def http_of_def busy_body_def)
  have jb: "res_json ?b = Inr busy_body" "\<not> nullish busy_body"
    "to_string (nullish_default (lookup_prop busy_body ''error'') (JStr ''unknown'')) = Inr ''busy''"
    by (simp_all add: http_of_def busy_body_def nullish_default_def)
  from onSubmit_failure_alerts_and_stops [OF fb, of busy_body "''busy''"] ob jb
  have 3: "onSubmit (client_of ?b) ana
       = (Inr (), [FetchRecommend ana, Alert ''Recommendation failed: busy''])"
    by simp
  from n 1 2 ob 3 show ?thesis by simp
qed

text \<open>
  Claim C6 as stated fails in these places. A response that is not 2xx and whose body
  is not JSON makes \<^verbatim>\<open>res.json()\<close> reject before line 49: the submission ends with
  that rejection and no alert is shown. A response that is not 2xx and whose error does
  not convert to a string rejects on line 50, again without an alert. And a 2xx body in
  which the \<^verbatim>\<open>error\<close> key is present with the empty string passes the test of line
  49: the document is written and the form reset.
\<close>

theorem onSubmit_failure_alerts_and_stops_counterexample:
  "fetch_recommend (client_of bad_gateway) ana = Inr bad_gateway
   \<and> \<not> res_ok bad_gateway
   \<and> onSubmit (client_of bad_gateway) ana = (Inl SyntaxError, [FetchRecommend ana])
   \<and> \<not> res_ok (http_of \<lparr>status = 500, body = unprintable_error_body\<rparr>)
   \<and> onSubmit (client_of (http_of \<lparr>status = 500, body = unprintable_error_body\<rparr>)) ana
       = (Inl TypeError, [FetchRecommend ana])
   \<and> res_ok (http_of \<lparr>status = 200, body = empty_error_body\<rparr>)
   \<and> lookup_prop empty_error_body ''error'' = JStr []
   \<and> snd (onSubmit (client_of (http_of \<lparr>status = 200, body = empty_error_body\<rparr>)) ana)
       = [FetchRecommend ana,
          AddDoc \<lparr>doc_username = ''Ana'', doc_age = ''29'', doc_style = ''Relaxed'',
                  doc_activity = ''Hiking'', doc_city = JStr ''Lisbon'',
                  doc_country = JStr ''Portugal'',
                  doc_recommendation = JStr ''Walk the hills of Alfama.''\<rparr>,
          Reset]"
  by (simp add: onSubmit_def client_of_def http_of_def bad_gateway_def res_ok_def failed_def
      empty_error_body_def unprintable_error_body_def alert_text_def get_prop_def make_doc_def
      nullish_default_def ana_def)

subsection \<open>Validation before submission\<close>

lemma zodResolver_FormSchema:
  "zodResolver FormSchema d =
     (if length (username d) < 2 then [(Username, TooSmall 2)] else [])
     @ (if length (age d) < 1 then [(Age, TooSmall 1)] else [])
     @ (if length (style d) < 3 then [(Style, TooSmall 3)] else [])
     @ (if length (activity d) < 3 then [(Activity, TooSmall 3)] else [])"
  by (simp add: zodResolver_def FormSchema_def)

lemma zodResolver_empty_iff:
  "zodResolver FormSchema d = [] \<longleftrightarrow> (\<forall>f. \<not> below_minimum d f)"
proof
  assume "zodResolver FormSchema d = []"
  then show "\<forall>f. \<not> below_minimum d f"
    by (auto simp: zodResolver_FormSchema below_minimum_def split: field.splits if_splits)
next
  assume a: "\<forall>f. \<not> below_minimum d f"
  from a [rule_format, of Username] a [rule_format, of Age]
    a [rule_format, of Style] a [rule_format, of Activity]
  show "zodResolver FormSchema d = []"
    by (simp add: zodResolver_FormSchema below_minimum_def)
qed

lemma map_of_zodResolver:
  "map_of (zodResolver FormSchema d) f =
     (if below_minimum d f then map_option TooSmall (map_of FormSchema f) else None)"
  by (cases f) (simp_all add: zodResolver_FormSchema below_minimum_def, simp_all add: FormSchema_def)

lemma onSubmit_starts_with_fetch:
  "\<exists>fx. snd (onSubmit cw d) = FetchRecommend d # fx"
  by (auto simp: onSubmit_def split: sum.splits bool.splits)

text \<open>
  Claim C7. If any of the four fields is below its minimum length (username 2, age 1,
  style 3, activity 3 characters), submitting the form does nothing outside the form:
  no network call is issued, and under each field the message shown is the issue of
  that field with its own minimum exactly when that field is too short. The callback
  runs, and with it the call of the endpoint, exactly when all four fields pass.
\<close>

theorem handleSubmit_blocks_invalid:
  "((\<exists>f. below_minimum d f) \<longrightarrow>
      snd (snd (handleSubmit cw \<lparr>form_values = d, errors = es\<rparr>)) = []
      \<and> (\<forall>f. shown_message (fst (snd (handleSubmit cw \<lparr>form_values = d, errors = es\<rparr>))) f
              = (if below_minimum d f then map_option TooSmall (map_of FormSchema f) else None)))
   \<and> ((\<forall>f. \<not> below_minimum d f) \<longleftrightarrow>
        FetchRecommend d \<in> set (snd (snd (handleSubmit cw \<lparr>form_values = d, errors = es\<rparr>))))"
proof (cases "zodResolver FormSchema d = []")
  case True
  then have ok: "\<forall>f. \<not> below_minimum d f" by (simp add: zodResolver_empty_iff)
  obtain r fx where "onSubmit cw d = (r, FetchRecommend d # fx)"
    using onSubmit_starts_with_fetch [of cw d] by (cases "onSubmit cw d") auto
  with True have "FetchRecommend d \<in> set (snd (snd (handleSubmit cw \<lparr>form_values = d, errors = es\<rparr>)))"
    by (simp add: handleSubmit_def Let_def)
  with ok show ?thesis by simp
next
  case False
  then have bad: "\<exists>f. below_minimum d f" by (simp add: zodResolver_empty_iff)
  from False have "handleSubmit cw \<lparr>form_values = d, errors = es\<rparr>
      = (Inr (), \<lparr>form_values = d, errors = zodResolver FormSchema d\<rparr>, [])"
    by (simp add: handleSubmit_def Let_def)
  with bad show ?thesis by (simp add: shown_message_def map_of_zodResolver)
qed

theorem handleSubmit_blocks_invalid_witness:
  "below_minimum short_username Username
   \<and> snd (snd (handleSubmit (client_of (http_of \<lparr>status = 200, body = lisbon\<rparr>))
          \<lparr>form_values = short_username, errors = []\<rparr>)) = []
   \<and> shown_message (fst (snd (handleSubmit (client_of (http_of \<lparr>status = 200, body = lisbon\<rparr>))
          \<lparr>form_values = short_username, errors = []\<rparr>))) Username = Some (TooSmall 2)
   \<and> shown_message (fst (snd (handleSubmit (client_of (http_of \<lparr>status = 200, body = lisbon\<rparr>))
          \<lparr>form_values = short_username, errors = []\<rparr>))) Age = None
   \<and> FetchRecommend ana \<in> set (snd (snd (handleSubmit (client_of (http_of \<lparr>status = 200, body = lisbon\<rparr>))
          \<lparr>form_values = ana, errors = []\<rparr>)))"
proof -
  let ?cw = "client_of (http_of \<lparr>status = 200, body = lisbon\<rparr>)"
  have b: "below_minimum short_username Username" "\<not> below_minimum short_username Age"
    by (simp_all add: below_minimum_def short_username_def)
  then have e: "\<exists>f. below_minimum short_username f" by blast
  have a: "\<forall>f. \<not> below_minimum ana f"
  proof
    fix f show "\<not> below_minimum ana f" by (cases f) (simp_all add: below_minimum_def ana_def)
  qed
  have m: "map_of FormSchema Username = Some 2" by (simp add: FormSchema_def)
  from handleSubmit_blocks_invalid [of short_username ?cw "[]"] e
  have "snd (snd (handleSubmit ?cw \<lparr>form_values = short_username, errors = []\<rparr>)) = []"
    and "\<forall>f. shown_message (fst (snd (handleSubmit ?cw \<lparr>form_values = short_username, errors = []\<rparr>))) f
              = (if below_minimum short_username f then map_option TooSmall (map_of FormSchema f) else None)"
    by blast+
  moreover from handleSubmit_blocks_invalid [of ana ?cw "[]"] a
  have "FetchRecommend ana \<in> set (snd (snd (handleSubmit ?cw \<lparr>form_values = ana, errors = []\<rparr>)))"
    by blast
  ultimately show ?thesis using b m by simp
qed

subsection \<open>Defaulting the result\<close>

text \<open>
  Claim C10. On a successful response (2xx, a JSON body without a truthy \<^verbatim>\<open>error\<close>) the
  page writes one document, whose city, country and recommendation are the values of
  the body, each replaced by ``Unknown'' exactly when it is \<^verbatim>\<open>null\<close> or
  \<^verbatim>\<open>undefined\<close>. A field that is the empty string is stored as the empty string.
\<close>

theorem onSubmit_defaults_only_nullish:
  assumes "fetch_recommend cw d = Inr res" "res_ok res" "res_json res = Inr json"
    and "\<not> nullish json" "\<not> truthy (lookup_prop json ''error'')"
  shows "\<exists>doc. filter is_AddDoc (snd (onSubmit cw d)) = [AddDoc doc]
       \<and> doc_city doc = (if nullish (lookup_prop json ''city'') then JStr ''Unknown''
                          else lookup_prop json ''city'')
       \<and> doc_country doc = (if nullish (lookup_prop json ''country'') then JStr ''Unknown''
                          else lookup_prop json ''country'')
       \<and> doc_recommendation doc
           = (if nullish (lookup_prop json ''recommendation'') then JStr ''Unknown''
              else lookup_prop json ''recommendation'')
       \<and> (lookup_prop json ''city'' = JStr [] \<longrightarrow> doc_city doc = JStr [])
       \<and> (lookup_prop json ''country'' = JStr [] \<longrightarrow> doc_country doc = JStr [])
       \<and> (lookup_prop json ''recommendation'' = JStr [] \<longrightarrow> doc_recommendation doc = JStr [])"
proof -
  let ?doc = "\<lparr>doc_username = username d, doc_age = age d, doc_style = style d,
             doc_activity = activity d,
             doc_city = nullish_default (lookup_prop json ''city'') (JStr ''Unknown''),
             doc_country = nullish_default (lookup_prop json ''country'') (JStr ''Unknown''),
             doc_recommendation
               = nullish_default (lookup_prop json ''recommendation'') (JStr ''Unknown'')\<rparr>"
  have f: "failed res json = Inr False"
    using assms by (simp add: failed_def get_prop_def)
  have m: "make_doc d json = Inr ?doc"
    using assms(4) by (simp add: make_doc_def get_prop_def)
  have "snd (onSubmit cw d) = [FetchRecommend d, AddDoc ?doc]
      \<or> snd (onSubmit cw d) = [FetchRecommend d, AddDoc ?doc, Reset]"
    using assms(1,3) f m by (cases "addDoc cw ?doc") (simp_all add: onSubmit_def)
  then have "filter is_AddDoc (snd (onSubmit cw d)) = [AddDoc ?doc]"
    by auto
  moreover have "doc_city ?doc = (if nullish (lookup_prop json ''city'') then JStr ''Unknown''
                          else lookup_prop json ''city'')"
    and "doc_country ?doc = (if nullish (lookup_prop json ''country'') then JStr ''Unknown''
                          else lookup_prop json ''country'')"
    and "doc_recommendation ?doc
           = (if nullish (lookup_prop json ''recommendation'') then JStr ''Unknown''
              else lookup_prop json ''recommendation'')"
    by (simp_all add: nullish_default_def)
  moreover have "lookup_prop json ''city'' = JStr [] \<longrightarrow> doc_city ?doc = JStr []"
    and "lookup_prop json ''country'' = JStr [] \<longrightarrow> doc_country ?doc = JStr []"
    and "lookup_prop json ''recommendation'' = JStr [] \<longrightarrow> doc_recommendation ?doc = JStr []"
    by (simp_all add: nullish_default_def)
  ultimately show ?thesis by blast
qed

theorem onSubmit_defaults_only_nullish_witness:
  "res_ok (http_of \<lparr>status = 200, body = empty_city_body\<rparr>)
   \<and> \<not> truthy (lookup_prop empty_city_body ''error'')
   \<and> snd (onSubmit (client_of (http_of \<lparr>status = 200, body = empty_city_body\<rparr>)) ana)
      = [FetchRecommend ana,
         AddDoc \<lparr>doc_username = ''Ana'', doc_age = ''29'', doc_style = ''Relaxed'',
                 doc_activity = ''Hiking'', doc_city = JStr [], doc_country = JStr ''Unknown'',
                 doc_recommendation = JStr ''Unknown''\<rparr>,
         Reset]"
proof -
  let ?res = "http_of \<lparr>status = 200, body = empty_city_body\<rparr>"
  have a: "fetch_recommend (client_of ?res) ana = Inr ?res" "res_ok ?res"
    "res_json ?res = Inr empty_city_body" "\<not> nullish empty_city_body"
    "\<not> truthy (lookup_prop empty_city_body ''error'')"
    by (simp_all add: client_of_def http_of_def res_ok_def empty_city_body_def)
  from onSubmit_defaults_only_nullish [OF a]
  obtain doc where "filter is_AddDoc (snd (onSubmit (client_of ?res) ana)) = [AddDoc doc]"
    and "doc_city doc = JStr []" and "doc_country doc = JStr ''Unknown''"
    and "doc_recommendation doc = JStr ''Unknown''"
    by (auto simp: empty_city_body_def)
  moreover have "snd (onSubmit (client_of ?res) ana)
      = [FetchRecommend ana,
         AddDoc \<lparr>doc_username = ''Ana'', doc_age = ''29'', doc_style = ''Relaxed'',
                 doc_activity = ''Hiking'', doc_city = JStr [], doc_country = JStr ''Unknown'',
                 doc_recommendation = JStr ''Unknown''\<rparr>,
         Reset]"
    by (simp add: onSubmit_def client_of_def http_of_def failed_def res_ok_def empty_city_body_def
        get_prop_def make_doc_def nullish_default_def ana_def)
  ultimately show ?thesis using a by simp
qed

subsection \<open>The display transform\<close>

lemma capitalise_nonempty:
  "capitaliseFirstLetter up (c # cs) = Inr (up [c] @ cs)"
  by (simp add: capitaliseFirstLetter_def char_at0_def slice_def)

text \<open>
  Claim C8. For every non-empty string and whatever the built-in \<open>up\<close> does,
  \<^verbatim>\<open>capitaliseFirstLetter\<close> returns the upper-cased first unit followed by the rest of
  the string, unchanged. Applying it to its own result changes nothing, provided the
  built-in leaves the first unit of its result as it is (as in sharp s to SS, S to S).
  ``lisbon'' becomes ``Lisbon'' and ``Lisbon'' stays, the built-in sending l and L to L.
\<close>

theorem capitalise_first_letter:
  assumes "s \<noteq> []"
  shows "capitaliseFirstLetter up s = Inr (up [hd s] @ tl s)
       \<and> (up [hd s] \<noteq> [] \<and> up [hd (up [hd s])] = [hd (up [hd s])] \<longrightarrow>
            (\<forall>t. capitaliseFirstLetter up s = Inr t \<longrightarrow> capitaliseFirstLetter up t = Inr t))
       \<and> (up (units ''l'') = units ''L'' \<longrightarrow>
            capitaliseFirstLetter up (units ''lisbon'') = Inr (units ''Lisbon''))
       \<and> (up (units ''L'') = units ''L'' \<longrightarrow>
            capitaliseFirstLetter up (units ''Lisbon'') = Inr (units ''Lisbon''))"
proof (intro conjI impI allI)
  from assms obtain c cs where s: "s = c # cs" by (cases s) auto
  show "capitaliseFirstLetter up s = Inr (up [hd s] @ tl s)"
    by (simp add: s capitalise_nonempty)
  {
    fix t
    assume st: "up [hd s] \<noteq> [] \<and> up [hd (up [hd s])] = [hd (up [hd s])]"
      and t: "capitaliseFirstLetter up s = Inr t"
    from st obtain u us where u: "up [c] = u # us" by (cases "up [c]") (auto simp: s)
    from st u have uu: "up [u] = [u]" by (simp add: s)
    from t have "t = u # us @ cs" by (simp add: s capitalise_nonempty u)
    then show "capitaliseFirstLetter up t = Inr t" by (simp add: capitalise_nonempty uu)
  }
  {
    assume "up (units ''l'') = units ''L''"
    then show "capitaliseFirstLetter up (units ''lisbon'') = Inr (units ''Lisbon'')"
      by (simp add: units_def capitalise_nonempty)
  }
  {
    assume "up (units ''L'') = units ''L''"
    then show "capitaliseFirstLetter up (units ''Lisbon'') = Inr (units ''Lisbon'')"
      by (simp add: units_def capitalise_nonempty)
  }
qed

theorem capitalise_first_letter_witness:
  "units ''paris'' \<noteq> []
   \<and> capitaliseFirstLetter sample_upper (units ''paris'') = Inr (units ''Paris'')
   \<and> capitaliseFirstLetter sample_upper (units ''Paris'') = Inr (units ''Paris'')
   \<and> capitaliseFirstLetter sample_upper (units ''lisbon'') = Inr (units ''Lisbon'')
   \<and> capitaliseFirstLetter sample_upper (units ''Lisbon'') = Inr (units ''Lisbon'')
   \<and> capitaliseFirstLetter sample_upper (0xDF # units ''a'') = Inr (units ''SSa'')
   \<and> capitaliseFirstLetter sample_upper (units ''SSa'') = Inr (units ''SSa'')"
proof -
  have a: "units ''paris'' \<noteq> []" "0xDF # units ''a'' \<noteq> []" by (simp_all add: units_def)
  have p: "sample_upper [hd (units ''paris'')] = units ''P''"
    "sample_upper [hd (units ''P'')] = [hd (units ''P'')]"
    "sample_upper (units ''l'') = units ''L''" "sample_upper (units ''L'') = units ''L''"
    "sample_upper [0xDF] = units ''SS''" "sample_upper [hd (units ''SS'')] = [hd (units ''SS'')]"
    by (simp_all add: sample_upper_def units_def)
  from capitalise_first_letter [OF a(1), of sample_upper] p
  have 1: "capitaliseFirstLetter sample_upper (units ''paris'') = Inr (units ''Paris'')"
    and 2: "capitaliseFirstLetter sample_upper (units ''Paris'') = Inr (units ''Paris'')"
    and 3: "capitaliseFirstLetter sample_upper (units ''lisbon'') = Inr (units ''Lisbon'')"
    and 4: "capitaliseFirstLetter sample_upper (units ''Lisbon'') = Inr (units ''Lisbon'')"
    by (simp_all add: units_def)
  from capitalise_first_letter [OF a(2), of sample_upper] p
  have 5: "capitaliseFirstLetter sample_upper (0xDF # units ''a'') = Inr (units ''SSa'')"
    and 6: "capitaliseFirstLetter sample_upper (units ''SSa'') = Inr (units ''SSa'')"
    by (simp_all add: units_def)
  from a 1 2 3 4 5 6 show ?thesis by simp
qed

text \<open>
  Claim C9. \<^verbatim>\<open>capitaliseFirstLetter\<close> is partial: on a non-empty string the read of
  \<^verbatim>\<open>sentence[0]\<close> is in bounds and the function returns; on the empty string the read
  yields \<^verbatim>\<open>undefined\<close>, the call on it throws a TypeError, and the empty string is not
  returned. This holds whatever the built-in does.
\<close>

theorem capitalise_partial_on_empty:
  "(s \<noteq> [] \<longrightarrow> char_at0 s = Some [hd s] \<and> (\<exists>t. capitaliseFirstLetter up s = Inr t))
   \<and> char_at0 [] = None
   \<and> capitaliseFirstLetter up [] = Inl TypeError
   \<and> capitaliseFirstLetter up [] \<noteq> Inr []"
  by (cases s) (simp_all add: capitaliseFirstLetter_def char_at0_def)

theorem capitalise_partial_on_empty_witness:
  "units ''x'' \<noteq> [] \<and> char_at0 (units ''x'') = Some (units ''x'')
   \<and> capitaliseFirstLetter sample_upper (units ''x'') = Inr (units ''X'')
   \<and> capitaliseFirstLetter sample_upper [] = Inl TypeError"
proof -
  have "char_at0 (units ''x'') = Some [hd (units ''x'')]
      \<and> (\<exists>t. capitaliseFirstLetter sample_upper (units ''x'') = Inr t)"
    using capitalise_partial_on_empty [of "units ''x''" sample_upper] by (simp add: units_def)
  moreover have "capitaliseFirstLetter sample_upper [] = Inl TypeError"
    using capitalise_partial_on_empty [of "units ''x''" sample_upper] by simp
  moreover have "capitaliseFirstLetter sample_upper (units ''x'') = Inr (units ''X'')"
    by (simp add: capitalise_nonempty sample_upper_def units_def)
  ultimately show ?thesis by (simp add: units_def)
qed

end
